theory Spec2Isabelle
  imports Main
begin

section \<open>JavaScript values\<close>

text \<open>
  The functions of \<^verbatim>\<open>lib.js\<close> work on JavaScript values: the primitives (a \<^verbatim>\<open>Symbol\<close>
  included, given by its description), arrays, plain objects and functions.
  A string is a list of code units; the code units below 256 are covered, one
  \<^typ>\<open>char\<close> each. A Number is \<^verbatim>\<open>NaN\<close>, an infinity, or a double with an integer value
  (\<open>Fin n\<close>; the two zeros are both \<open>Fin 0\<close>, and they compare equal in JavaScript).
  An object is the list of its own properties in insertion order. \<open>JFun src\<close> is a
  function object, given by its source text; what a call of it does is a parameter,
  \<open>call src this\<close>, of the operations that can call one.
\<close>

datatype jsnum = NaN | PosInf | NegInf | Fin int

datatype jsval =
    JUndefined
  | JNull
  | JBool bool
  | JNum jsnum
  | JStr string
  | JSymbol string
  | JArr "jsval list"
  | JObj "(string \<times> jsval) list"
  | JFun string

text \<open>A thrown value, with the two properties that the code reads from it.\<close>

datatype js_exn = Exn (exn_name: jsval) (exn_message: jsval)

text \<open>\<^verbatim>\<open>new Error(msg)\<close>, and the errors that the language itself throws.\<close>

definition Error :: "string \<Rightarrow> js_exn" where
  "Error msg = Exn (JStr ''Error'') (JStr msg)"

definition TypeError :: "string \<Rightarrow> js_exn" where
  "TypeError msg = Exn (JStr ''TypeError'') (JStr msg)"

definition SyntaxError :: "string \<Rightarrow> js_exn" where
  "SyntaxError msg = Exn (JStr ''SyntaxError'') (JStr msg)"

section \<open>Built-in operations\<close>

subsection \<open>Exceptions\<close>

text \<open>
  A computation that may throw returns \<open>Inl\<close> of the thrown value or \<open>Inr\<close> of its
  result. \<open>and_then\<close> runs the next statement after a normal completion; \<open>try_catch\<close> is
  \<^verbatim>\<open>try { ... } catch (ex) { ... }\<close>.
\<close>

fun and_then :: "js_exn + 'a \<Rightarrow> ('a \<Rightarrow> js_exn + 'b) \<Rightarrow> js_exn + 'b" where
  "and_then (Inl ex) rest = Inl ex"
| "and_then (Inr v) rest = rest v"

fun try_catch :: "js_exn + 'a \<Rightarrow> (js_exn \<Rightarrow> js_exn + 'a) \<Rightarrow> js_exn + 'a" where
  "try_catch (Inl ex) handler = handler ex"
| "try_catch (Inr v) handler = Inr v"

text \<open>The text \<open>t\<close> followed by a text that is still to be computed.\<close>

fun prepend :: "string \<Rightarrow> js_exn + string \<Rightarrow> js_exn + string" where
  "prepend t (Inl ex) = Inl ex"
| "prepend t (Inr u) = Inr (t @ u)"

text \<open>
  \<^verbatim>\<open>Array.prototype.reduce\<close> with an initial value and a callback that may throw.
\<close>

fun reduce :: "('b \<Rightarrow> 'a \<Rightarrow> js_exn + 'b) \<Rightarrow> 'a list \<Rightarrow> 'b \<Rightarrow> js_exn + 'b" where
  "reduce f [] out = Inr out"
| "reduce f (key # keys) out = and_then (f out key) (reduce f keys)"

subsection \<open>ToBoolean and typeof\<close>

fun truthy :: "jsval \<Rightarrow> bool" where
  "truthy JUndefined = False"
| "truthy JNull = False"
| "truthy (JBool b) = b"
| "truthy (JNum NaN) = False"
| "truthy (JNum (Fin n)) = (n \<noteq> 0)"
| "truthy (JNum _) = True"
| "truthy (JStr s) = (s \<noteq> [])"
| "truthy (JSymbol _) = True"
| "truthy (JArr _) = True"
| "truthy (JObj _) = True"
| "truthy (JFun _) = True"

fun typeof :: "jsval \<Rightarrow> string" where
  "typeof JUndefined = ''undefined''"
| "typeof JNull = ''object''"
| "typeof (JBool _) = ''boolean''"
| "typeof (JNum _) = ''number''"
| "typeof (JStr _) = ''string''"
| "typeof (JSymbol _) = ''symbol''"
| "typeof (JArr _) = ''object''"
| "typeof (JObj _) = ''object''"
| "typeof (JFun _) = ''function''"

text \<open>A value that is not an object: arrays, plain objects and functions are objects.\<close>

fun is_primitive :: "jsval \<Rightarrow> bool" where
  "is_primitive (JArr _) = False"
| "is_primitive (JObj _) = False"
| "is_primitive (JFun _) = False"
| "is_primitive _ = True"

text \<open>\<^verbatim>\<open>a || b\<close> on values already computed (the right operand has no effect here).\<close>

definition or_else :: "jsval \<Rightarrow> jsval \<Rightarrow> jsval" where
  "or_else a b = (if truthy a then a else b)"

text \<open>\<^verbatim>\<open>xs[i]\<close> on an array or on \<^verbatim>\<open>arguments\<close>: \<^verbatim>\<open>undefined\<close> out of range.\<close>

definition at_index :: "jsval list \<Rightarrow> nat \<Rightarrow> jsval" where
  "at_index xs i = (if i < length xs then xs ! i else JUndefined)"

subsection \<open>Numbers\<close>

definition is_digit :: "char \<Rightarrow> bool" where
  "is_digit c = (48 \<le> (of_char c :: nat) \<and> (of_char c :: nat) \<le> 57)"

definition digits_value :: "string \<Rightarrow> int" where
  "digits_value ds = foldl (\<lambda>acc c. 10 * acc + (of_char c - 48)) 0 ds"

text \<open>The decimal digits of an integer that is not negative.\<close>

function show_digits :: "int \<Rightarrow> string" where
  "show_digits n =
     (if n < 10 then [char_of (48 + n)]
      else show_digits (n div 10) @ [char_of (48 + n mod 10)])"
  by pat_completeness auto
termination
  by (relation "measure nat") auto

function bit_length :: "int \<Rightarrow> nat" where
  "bit_length n = (if n \<le> 0 then 0 else Suc (bit_length (n div 2)))"
  by pat_completeness auto
termination
  by (relation "measure nat") auto

text \<open>
  The Number for a mathematical integer \<open>n \<ge> 0\<close>: the nearest double, ties to the even
  significand of 53 bits, and \<^verbatim>\<open>Infinity\<close> from \<open>2^1024\<close> on. Below \<open>2^53\<close> it is \<open>n\<close>.
\<close>

definition toDouble :: "int \<Rightarrow> jsnum" where
  "toDouble n =
     (let e = bit_length n - 53;
          q = n div 2 ^ e;
          r = n mod 2 ^ e;
          q' = (if 2 * r > 2 ^ e \<or> (2 * r = 2 ^ e \<and> odd q) then q + 1 else q);
          m = q' * 2 ^ e
      in if m \<ge> 2 ^ 1024 then PosInf else Fin m)"

fun negate :: "jsnum \<Rightarrow> jsnum" where
  "negate NaN = NaN"
| "negate PosInf = NegInf"
| "negate NegInf = PosInf"
| "negate (Fin n) = Fin (- n)"

fun isNaN :: "jsnum \<Rightarrow> bool" where
  "isNaN NaN = True"
| "isNaN _ = False"

fun isFinite :: "jsnum \<Rightarrow> bool" where
  "isFinite (Fin n) = True"
| "isFinite _ = False"

text \<open>\<^verbatim>\<open>x < 0\<close> on a Number.\<close>

fun less_zero :: "jsnum \<Rightarrow> bool" where
  "less_zero (Fin n) = (n < 0)"
| "less_zero NegInf = True"
| "less_zero _ = False"

text \<open>
  \<^verbatim>\<open>Number::toString\<close> prints the decimal number with the fewest significant digits that
  reads back as the same double, and of two such numbers the nearer one (the even one on
  a tie). \<open>shortest_from m es\<close> tries the powers of ten \<open>es\<close>, the largest first: the
  candidates are the two multiples of \<open>10^e\<close> around \<open>m\<close>. Below \<open>2^53\<close> the
  result is \<open>m\<close> itself.
\<close>

fun shortest_from :: "int \<Rightarrow> nat list \<Rightarrow> int" where
  "shortest_from m [] = m"
| "shortest_from m (e # es) =
     (let p = 10 ^ e;
          lo = (m div p) * p;
          hi = lo + p;
          lo_reads = (toDouble lo = Fin m);
          hi_reads = (toDouble hi = Fin m)
      in if lo_reads \<and> hi_reads
         then (if m - lo < hi - m \<or> (m - lo = hi - m \<and> even (m div p)) then lo else hi)
         else if lo_reads then lo
         else if hi_reads then hi
         else shortest_from m es)"

definition shortest_decimal :: "int \<Rightarrow> int" where
  "shortest_decimal m = shortest_from m (rev [0 ..< length (show_digits m)])"

text \<open>
  The digits of a decimal number \<open>c \<ge> 0\<close> as JavaScript writes them: all of them up to 21
  digits, and from 22 digits on the exponent form, \<^verbatim>\<open>1e+21\<close> or \<^verbatim>\<open>1.5e+21\<close>.
\<close>

definition strip_zeros :: "string \<Rightarrow> string" where
  "strip_zeros ds = rev (dropWhile (\<lambda>c. c = CHR ''0'') (rev ds))"

definition format_decimal :: "int \<Rightarrow> string" where
  "format_decimal c =
     (let ds = show_digits c; n = length ds
      in if n \<le> 21 then ds
         else (case strip_zeros ds of
                 [] \<Rightarrow> ds
               | [d] \<Rightarrow> d # ''e+'' @ show_digits (int n - 1)
               | d # rest \<Rightarrow> d # CHR ''.'' # rest @ ''e+'' @ show_digits (int n - 1)))"

text \<open>
  An integer that is no double stands for the nearest double (no operation of this file
  produces one).
\<close>

fun Number_toString :: "jsnum \<Rightarrow> string" where
  "Number_toString NaN = ''NaN''"
| "Number_toString PosInf = ''Infinity''"
| "Number_toString NegInf = ''-Infinity''"
| "Number_toString (Fin n) =
     (case toDouble (abs n) of
        Fin m \<Rightarrow> (if n < 0 then ''-'' else '''') @ format_decimal (shortest_decimal m)
      | _ \<Rightarrow> (if n < 0 then ''-Infinity'' else ''Infinity''))"

subsection \<open>Conversion to a string\<close>

text \<open>
  \<^verbatim>\<open>ToString\<close> on a primitive. A \<^verbatim>\<open>Symbol\<close> has no implicit conversion: a \<^verbatim>\<open>TypeError\<close>.
\<close>

fun prim_to_string :: "jsval \<Rightarrow> js_exn + string" where
  "prim_to_string JUndefined = Inr ''undefined''"
| "prim_to_string JNull = Inr ''null''"
| "prim_to_string (JBool b) = Inr (if b then ''true'' else ''false'')"
| "prim_to_string (JNum n) = Inr (Number_toString n)"
| "prim_to_string (JStr s) = Inr s"
| "prim_to_string (JSymbol d) = Inl (TypeError ''Cannot convert a Symbol value to a string'')"
| "prim_to_string _ = Inl (TypeError ''Cannot convert object to primitive value'')"

text \<open>
  \<^verbatim>\<open>OrdinaryToPrimitive\<close> on a plain object tries two methods, \<^verbatim>\<open>toString\<close> first under
  the hint \<^verbatim>\<open>string\<close> and \<^verbatim>\<open>valueOf\<close> first otherwise. A method is skipped (\<open>None\<close>) when
  the property is not callable or the call returns an object. An own property hides the
  built-in method of \<^verbatim>\<open>Object.prototype\<close>, of which \<^verbatim>\<open>toString\<close> returns
  \<^verbatim>\<open>[object Object]\<close> and \<^verbatim>\<open>valueOf\<close> returns the object itself. When both methods are
  skipped the conversion throws a \<^verbatim>\<open>TypeError\<close>.
\<close>

definition method_result ::
  "(string \<Rightarrow> jsval \<Rightarrow> js_exn + jsval) \<Rightarrow> (string \<times> jsval) list \<Rightarrow> string \<Rightarrow>
   (js_exn + jsval) option" where
  "method_result call kvs name =
     (case map_of kvs name of
        None \<Rightarrow> if name = ''toString'' then Some (Inr (JStr ''[object Object]'')) else None
      | Some (JFun src) \<Rightarrow>
          (case call src (JObj kvs) of
             Inl ex \<Rightarrow> Some (Inl ex)
           | Inr r \<Rightarrow> if is_primitive r then Some (Inr r) else None)
      | Some _ \<Rightarrow> None)"

definition OrdinaryToPrimitive ::
  "(string \<Rightarrow> jsval \<Rightarrow> js_exn + jsval) \<Rightarrow> bool \<Rightarrow> (string \<times> jsval) list \<Rightarrow> js_exn + jsval" where
  "OrdinaryToPrimitive call hint_string kvs =
     (let first = (if hint_string then ''toString'' else ''valueOf'');
          second = (if hint_string then ''valueOf'' else ''toString'')
      in case method_result call kvs first of
           Some r \<Rightarrow> r
         | None \<Rightarrow>
             (case method_result call kvs second of
                Some r \<Rightarrow> r
              | None \<Rightarrow> Inl (TypeError ''Cannot convert object to primitive value'')))"

text \<open>
  \<^verbatim>\<open>ToString\<close>, which a template literal and \<^verbatim>\<open>replace\<close> apply. An array is its elements
  joined by commas, where \<^verbatim>\<open>null\<close> and \<^verbatim>\<open>undefined\<close> elements are empty
  (\<^verbatim>\<open>Array.prototype.join\<close>); a function is its source text.
\<close>

fun ToString :: "(string \<Rightarrow> jsval \<Rightarrow> js_exn + jsval) \<Rightarrow> jsval \<Rightarrow> js_exn + string"
  and join_elems :: "(string \<Rightarrow> jsval \<Rightarrow> js_exn + jsval) \<Rightarrow> jsval list \<Rightarrow> js_exn + string"
  and elem_str :: "(string \<Rightarrow> jsval \<Rightarrow> js_exn + jsval) \<Rightarrow> jsval \<Rightarrow> js_exn + string" where
  "ToString call JUndefined = prim_to_string JUndefined"
| "ToString call JNull = prim_to_string JNull"
| "ToString call (JBool b) = prim_to_string (JBool b)"
| "ToString call (JNum n) = prim_to_string (JNum n)"
| "ToString call (JStr s) = prim_to_string (JStr s)"
| "ToString call (JSymbol d) = prim_to_string (JSymbol d)"
| "ToString call (JArr xs) = join_elems call xs"
| "ToString call (JObj kvs) = and_then (OrdinaryToPrimitive call True kvs) prim_to_string"
| "ToString call (JFun src) = Inr src"
| "join_elems call [] = Inr []"
| "join_elems call [x] = elem_str call x"
| "join_elems call (x # y # ys) =
     (case elem_str call x of
        Inl ex \<Rightarrow> Inl ex
      | Inr t \<Rightarrow> prepend (t @ '','') (join_elems call (y # ys)))"
| "elem_str call JUndefined = Inr []"
| "elem_str call JNull = Inr []"
| "elem_str call (JBool b) = ToString call (JBool b)"
| "elem_str call (JNum n) = ToString call (JNum n)"
| "elem_str call (JStr s) = ToString call (JStr s)"
| "elem_str call (JSymbol d) = ToString call (JSymbol d)"
| "elem_str call (JArr xs) = ToString call (JArr xs)"
| "elem_str call (JObj kvs) = ToString call (JObj kvs)"
| "elem_str call (JFun src) = ToString call (JFun src)"

text \<open>\<^verbatim>\<open>String(x)\<close>: as \<^verbatim>\<open>ToString\<close>, but a \<^verbatim>\<open>Symbol\<close> gives its descriptive string.\<close>

fun StringOf :: "(string \<Rightarrow> jsval \<Rightarrow> js_exn + jsval) \<Rightarrow> jsval \<Rightarrow> js_exn + string" where
  "StringOf call (JSymbol d) = Inr (''Symbol('' @ d @ '')'')"
| "StringOf call x = ToString call x"

text \<open>
  \<^verbatim>\<open>x + ""\<close>: \<^verbatim>\<open>ToPrimitive\<close> without a hint, which tries \<^verbatim>\<open>valueOf\<close> first on a plain
  object, then \<^verbatim>\<open>ToString\<close> of the primitive.
\<close>

fun plus_empty :: "(string \<Rightarrow> jsval \<Rightarrow> js_exn + jsval) \<Rightarrow> jsval \<Rightarrow> js_exn + string" where
  "plus_empty call (JObj kvs) = and_then (OrdinaryToPrimitive call False kvs) prim_to_string"
| "plus_empty call x = ToString call x"

text \<open>A host in which every call of a function returns \<^verbatim>\<open>undefined\<close>, for the examples.\<close>

definition call_undefined :: "string \<Rightarrow> jsval \<Rightarrow> js_exn + jsval" where
  "call_undefined src this = Inr JUndefined"

subsection \<open>Strings\<close>

text \<open>
  White space and line terminators, as \<^verbatim>\<open>String.prototype.trim\<close> and \<^verbatim>\<open>parseInt\<close> skip
  them: TAB, LF, VT, FF, CR, SP and NBSP are the ones below 256.
\<close>

definition is_ws :: "char \<Rightarrow> bool" where
  "is_ws c = (of_char c \<in> {9, 10, 11, 12, 13, 32, 160 :: nat})"

definition trim :: "string \<Rightarrow> string" where
  "trim s = rev (dropWhile is_ws (rev (dropWhile is_ws s)))"

text \<open>\<^verbatim>\<open>s.split(c)\<close> for a separator of one character: never empty, \<^verbatim>\<open>"".split(c)\<close> is \<^verbatim>\<open>[""]\<close>.\<close>

fun split_on :: "char \<Rightarrow> string \<Rightarrow> string list" where
  "split_on c [] = [[]]"
| "split_on c (x # xs) =
     (if x = c then [] # split_on c xs
      else (case split_on c xs of [] \<Rightarrow> [[x]] | r # rs \<Rightarrow> (x # r) # rs))"

subsection \<open>Regular expressions\<close>

text \<open>
  The fragment of the regular expressions that the file uses: characters, sequence,
  alternation, the empty pattern and the two anchors (without the \<^verbatim>\<open>m\<close> flag). A
  capturing group only groups here: no code reads a capture.
\<close>

datatype regex =
    Chr char
  | Seq regex regex
  | Alt regex regex
  | Empty
  | Bol
  | Eol

text \<open>
  \<^verbatim>\<open>Canonicalize\<close> under the \<^verbatim>\<open>i\<close> flag (without \<^verbatim>\<open>u\<close>): the upper-case code unit. Below
  256 that moves \<^verbatim>\<open>a-z\<close> and the Latin-1 letters \<open>0xE0-0xFE\<close> (not \<open>0xF7\<close>) down by 32; the
  upper-case forms of \<open>0xB5\<close> and \<open>0xFF\<close> lie above 255 and are the image of no other
  code unit below 256, and \<open>0xDF\<close> has none of one code unit, so these three compare equal
  to themselves only, as they do here.
\<close>

definition canonicalize :: "bool \<Rightarrow> char \<Rightarrow> char" where
  "canonicalize ignoreCase c =
     (let n = (of_char c :: nat)
      in if ignoreCase \<and> ((97 \<le> n \<and> n \<le> 122) \<or> (224 \<le> n \<and> n \<le> 254 \<and> n \<noteq> 247))
         then char_of (n - 32) else c)"

text \<open>
  A matcher state is the input before the position (reversed) and the input from the
  position on. \<open>rmatch\<close> lists the states in which a match of the pattern can end, in
  the order in which the backtracking matcher of the language tries them.
\<close>

fun rmatch :: "bool \<Rightarrow> regex \<Rightarrow> string \<times> string \<Rightarrow> (string \<times> string) list" where
  "rmatch ic (Chr c) (pre, suf) =
     (case suf of
        [] \<Rightarrow> []
      | x # xs \<Rightarrow> if canonicalize ic x = canonicalize ic c then [(x # pre, xs)] else [])"
| "rmatch ic (Seq a b) st = concat (map (rmatch ic b) (rmatch ic a st))"
| "rmatch ic (Alt a b) st = rmatch ic a st @ rmatch ic b st"
| "rmatch ic Empty st = [st]"
| "rmatch ic Bol (pre, suf) = (if pre = [] then [(pre, suf)] else [])"
| "rmatch ic Eol (pre, suf) = (if suf = [] then [(pre, suf)] else [])"

text \<open>A literal word, and an alternation of patterns.\<close>

fun lit :: "string \<Rightarrow> regex" where
  "lit [] = Empty"
| "lit (c # cs) = Seq (Chr c) (lit cs)"

fun alts :: "regex list \<Rightarrow> regex" where
  "alts [] = Empty"
| "alts [r] = r"
| "alts (r # rs) = Alt r (alts rs)"

text \<open>
  \<^verbatim>\<open>re.test(s)\<close> for a pattern without the \<^verbatim>\<open>g\<close> flag: is there a match at some start
  position, tried from the left.
\<close>

fun test_from :: "bool \<Rightarrow> regex \<Rightarrow> string \<Rightarrow> string \<Rightarrow> bool" where
  "test_from ic r pre [] = (rmatch ic r (pre, []) \<noteq> [])"
| "test_from ic r pre (x # xs) =
     (rmatch ic r (pre, x # xs) \<noteq> [] \<or> test_from ic r (x # pre) xs)"

definition RegExp_test :: "bool \<Rightarrow> regex \<Rightarrow> string \<Rightarrow> bool" where
  "RegExp_test ic r s = test_from ic r [] s"

text \<open>
  \<^verbatim>\<open>s.replace(re, ...)\<close> for a pattern with the \<^verbatim>\<open>g\<close> flag: the matches are found from the
  left, none overlapping, and the replacer is called once per match, in order, with the
  matched text. It gives the text to insert, or throws, and it may update variables of
  its closure: it takes and returns their state. The patterns of this file match no empty
  string; after an empty match the matcher moves on by one code unit.
\<close>

function replace_from ::
  "regex \<Rightarrow> (string \<Rightarrow> 'st \<Rightarrow> (js_exn + string) \<times> 'st) \<Rightarrow> 'st \<Rightarrow> string \<Rightarrow> string \<Rightarrow>
   js_exn + string" where
  "replace_from r f st pre suf =
     (case rmatch False r (pre, suf) of
        [] \<Rightarrow> (case suf of [] \<Rightarrow> Inr [] | x # xs \<Rightarrow> prepend [x] (replace_from r f st (x # pre) xs))
      | (pre', suf') # _ \<Rightarrow>
          (let n = length suf - length suf';
               (replacement, st') = f (take n suf) st
           in case replacement of
                Inl ex \<Rightarrow> Inl ex
              | Inr t \<Rightarrow>
                  prepend t
                    (if n = 0
                     then (case suf of
                             [] \<Rightarrow> Inr []
                           | x # xs \<Rightarrow> prepend [x] (replace_from r f st' (x # pre) xs))
                     else replace_from r f st' (rev (take n suf) @ pre) (drop n suf))))"
  by pat_completeness auto
termination
  by (relation "measure (\<lambda>(r, f, st, pre, suf). length suf)") auto

text \<open>
  With a replacer function, \<^verbatim>\<open>replace\<close> applies \<^verbatim>\<open>ToString\<close> to what the function returns.
\<close>

definition replace_fn ::
  "(string \<Rightarrow> jsval \<Rightarrow> js_exn + jsval) \<Rightarrow> regex \<Rightarrow> (string \<Rightarrow> 'st \<Rightarrow> jsval \<times> 'st) \<Rightarrow> 'st \<Rightarrow>
   string \<Rightarrow> js_exn + string" where
  "replace_fn call r f st s =
     replace_from r (\<lambda>a st. let (v, st') = f a st in (ToString call v, st')) st [] s"

text \<open>
  With a replacement string that has no \<^verbatim>\<open>$\<close> in it, the string is inserted as it is.
\<close>

definition replace_str :: "regex \<Rightarrow> string \<Rightarrow> string \<Rightarrow> js_exn + string" where
  "replace_str r rep s = replace_from r (\<lambda>a u. (Inr rep, u)) () [] s"

subsection \<open>parseInt\<close>

text \<open>
  \<^verbatim>\<open>parseInt(inputString, 10)\<close> on a string: leading white space is skipped, then one sign,
  then the longest run of decimal digits is read and the rest is ignored; no digit gives
  \<^verbatim>\<open>NaN\<close>.
\<close>

definition parseInt10 :: "string \<Rightarrow> jsnum" where
  "parseInt10 inputString =
     (let S = dropWhile is_ws inputString;
          neg = (S \<noteq> [] \<and> hd S = CHR ''-'');
          S' = (if S \<noteq> [] \<and> (hd S = CHR ''+'' \<or> hd S = CHR ''-'') then tl S else S);
          Z = takeWhile is_digit S'
      in if Z = [] then NaN
         else if neg then negate (toDouble (digits_value Z)) else toDouble (digits_value Z))"

subsection \<open>Property access\<close>

text \<open>
  \<^verbatim>\<open>v[key]\<close>. Reading a property of \<^verbatim>\<open>undefined\<close> or \<^verbatim>\<open>null\<close> throws a \<^verbatim>\<open>TypeError\<close>. An
  own property is found in the value; every other key is looked up along the prototype
  chain, which is the parameter \<open>proto\<close> (for instance \<^verbatim>\<open>({})["constructor"]\<close>). That
  lookup may run an accessor, and an accessor may throw. The own properties of an array
  or a string are its indices, written canonically, and \<^verbatim>\<open>length\<close>.
\<close>

definition array_index :: "string \<Rightarrow> nat option" where
  "array_index key =
     (if key \<noteq> [] \<and> list_all is_digit key \<and> (key = ''0'' \<or> hd key \<noteq> CHR ''0'')
      then Some (nat (digits_value key)) else None)"

fun getProp ::
  "(jsval \<Rightarrow> string \<Rightarrow> js_exn + jsval) \<Rightarrow> jsval \<Rightarrow> string \<Rightarrow> js_exn + jsval" where
  "getProp proto JUndefined key =
     Inl (TypeError (''Cannot read property '' @ [CHR 0x27] @ key @ [CHR 0x27] @ '' of undefined''))"
| "getProp proto JNull key =
     Inl (TypeError (''Cannot read property '' @ [CHR 0x27] @ key @ [CHR 0x27] @ '' of null''))"
| "getProp proto (JObj kvs) key =
     (case map_of kvs key of Some v \<Rightarrow> Inr v | None \<Rightarrow> proto (JObj kvs) key)"
| "getProp proto (JArr xs) key =
     (case array_index key of
        Some i \<Rightarrow> if i < length xs then Inr (xs ! i) else proto (JArr xs) key
      | None \<Rightarrow> if key = ''length'' then Inr (JNum (Fin (int (length xs))))
                else proto (JArr xs) key)"
| "getProp proto (JStr s) key =
     (case array_index key of
        Some i \<Rightarrow> if i < length s then Inr (JStr [s ! i]) else proto (JStr s) key
      | None \<Rightarrow> if key = ''length'' then Inr (JNum (Fin (int (length s))))
                else proto (JStr s) key)"
| "getProp proto (JBool b) key = proto (JBool b) key"
| "getProp proto (JNum n) key = proto (JNum n) key"
| "getProp proto (JSymbol d) key = proto (JSymbol d) key"
| "getProp proto (JFun src) key = proto (JFun src) key"

text \<open>
  Two prototype chains for the examples. On the first no key is inherited. The second has
  what the path \<^verbatim>\<open>constructor.caller\<close> meets on a plain object: \<^verbatim>\<open>constructor\<close> is the
  function \<^verbatim>\<open>Object\<close>, and \<^verbatim>\<open>caller\<close> and \<^verbatim>\<open>arguments\<close> of a built-in function are the
  accessors of \<^verbatim>\<open>Function.prototype\<close>, whose getter throws a \<^verbatim>\<open>TypeError\<close>.
\<close>

definition proto_empty :: "jsval \<Rightarrow> string \<Rightarrow> js_exn + jsval" where
  "proto_empty v key = Inr JUndefined"

definition proto_builtin :: "jsval \<Rightarrow> string \<Rightarrow> js_exn + jsval" where
  "proto_builtin v key =
     (case v of
        JObj kvs \<Rightarrow>
          if key = ''constructor'' then Inr (JFun ''function Object() { [native code] }'')
          else Inr JUndefined
      | JFun src \<Rightarrow>
          if src = ''function Object() { [native code] }'' \<and>
             (key = ''caller'' \<or> key = ''arguments'')
          then Inl (TypeError ''caller, callee, and arguments properties may not be accessed on strict mode functions or the arguments objects for calls to them'')
          else Inr JUndefined
      | _ \<Rightarrow> Inr JUndefined)"

subsection \<open>Library functions\<close>

text \<open>
  The libraries are parameters of the functions that call them.
  \<^item> \<open>JSON_parse text\<close> is \<^verbatim>\<open>JSON.parse\<close> on a string: \<open>Inr\<close> of the value, or \<open>Inl\<close> of
    the message of the \<^verbatim>\<open>SyntaxError\<close> that it throws.
  \<^item> \<open>base64url_decode\<close> is \<^verbatim>\<open>decode\<close> of the package \<^verbatim>\<open>base64-url\<close>; it may throw (it does
    on \<^verbatim>\<open>undefined\<close>).
  \<^item> \<open>base64_decode seg\<close> is \<^verbatim>\<open>new Buffer(seg, "base64").toString("utf8")\<close>, which returns
    a string for every string.
  \<^item> \<open>jwt_verify token secret\<close> is \<^verbatim>\<open>verify\<close> of the package \<^verbatim>\<open>jsonwebtoken\<close>: the
    decoded payload, or the error thrown.
\<close>

definition JSON_parse_or_throw :: "(string \<Rightarrow> string + jsval) \<Rightarrow> string \<Rightarrow> js_exn + jsval" where
  "JSON_parse_or_throw JSON_parse text =
     (case JSON_parse text of Inl msg \<Rightarrow> Inl (SyntaxError msg) | Inr v \<Rightarrow> Inr v)"

subsection \<open>Requests and responses\<close>

text \<open>
  Of a request the code reads the headers, an object from the lower-case header names to
  strings. What a handler does to the outside is recorded: the status code set by
  \<^verbatim>\<open>res.status\<close>, the body given to \<^verbatim>\<open>res.send\<close>, and the calls of \<^verbatim>\<open>next\<close>.
\<close>

record request =
  headers :: "string \<Rightarrow> string option"

record http =
  statusCode :: nat
  sent :: "jsval option"
  next_calls :: nat

definition res_status :: "nat \<Rightarrow> http \<Rightarrow> http" where
  "res_status code w = w\<lparr>statusCode := code\<rparr>"

definition res_send :: "jsval \<Rightarrow> http \<Rightarrow> http" where
  "res_send b w = w\<lparr>sent := Some b\<rparr>"

definition call_next :: "http \<Rightarrow> http" where
  "call_next w = w\<lparr>next_calls := Suc (next_calls w)\<rparr>"

section \<open>lib.js\<close>

text \<open>The regular expressions of lines 9 to 13.\<close>

definition RE_GT :: regex where
  "RE_GT = Chr CHR ''>''"

definition RE_LT :: regex where
  "RE_LT = Chr CHR ''<''"

definition RE_AMP :: regex where
  "RE_AMP = Chr CHR ''&''"

definition RE_QUOT :: regex where
  "RE_QUOT = Chr (CHR 0x22)"

text \<open>\<^verbatim>\<open>/^(0|no|false|off|null|undefined|NaN|)$/i\<close>; the \<^verbatim>\<open>i\<close> flag is given at the test.\<close>

definition RE_FALSE :: regex where
  "RE_FALSE =
     Seq Bol
       (Seq (alts [lit ''0'', lit ''no'', lit ''false'', lit ''off'', lit ''null'',
                   lit ''undefined'', lit ''NaN'', lit ''''])
            Eol)"

definition bool :: "(string \<Rightarrow> jsval \<Rightarrow> js_exn + jsval) \<Rightarrow> jsval \<Rightarrow> js_exn + bool" where
  "bool call x =
     and_then (StringOf call x) (\<lambda>s. Inr (\<not> RegExp_test True RE_FALSE (trim s)))"

definition htmlEncode :: "(string \<Rightarrow> jsval \<Rightarrow> js_exn + jsval) \<Rightarrow> jsval \<Rightarrow> js_exn + string" where
  "htmlEncode call html =
     and_then (StringOf call html) (\<lambda>s.
     and_then (replace_str RE_AMP ''&amp;'' (trim s)) (\<lambda>a.
     and_then (replace_str RE_LT ''&lt;'' a) (\<lambda>b.
     and_then (replace_str RE_GT ''&gt;'' b) (\<lambda>c.
     replace_str RE_QUOT ''&quot;'' c))))"

text \<open>
  \<^verbatim>\<open>decodeArgs\<close>: the \<^verbatim>\<open>try\<close> block, the \<^verbatim>\<open>catch\<close> that sets \<^verbatim>\<open>args = null\<close>, then the
  \<^verbatim>\<open>finally\<close> block and the \<^verbatim>\<open>return\<close>.
\<close>

definition decodeArgs ::
  "(jsval \<Rightarrow> js_exn + string) \<Rightarrow> (string \<Rightarrow> string + jsval) \<Rightarrow> jsval \<Rightarrow> js_exn + jsval" where
  "decodeArgs base64url_decode JSON_parse inputString =
     and_then (try_catch
             (and_then (base64url_decode inputString) (JSON_parse_or_throw JSON_parse))
             (\<lambda>ex. Inr JNull))
       (\<lambda>args. Inr (if \<not> truthy args \<or> typeof args \<noteq> ''object'' then JObj [] else args))"

text \<open>
  \<^verbatim>\<open>getPath(obj, path = "")\<close>: the default applies when \<^verbatim>\<open>path\<close> is \<^verbatim>\<open>undefined\<close>. Only a
  string has the \<^verbatim>\<open>split\<close> that the code calls.
\<close>

definition getPath ::
  "(jsval \<Rightarrow> string \<Rightarrow> js_exn + jsval) \<Rightarrow> jsval \<Rightarrow> jsval \<Rightarrow> js_exn + jsval" where
  "getPath proto obj path =
     (case (if path = JUndefined then JStr '''' else path) of
        JStr p \<Rightarrow>
          reduce (\<lambda>out key. if truthy out then getProp proto out key else Inr JUndefined)
            (split_on CHR ''.'' p) obj
      | _ \<Rightarrow> Inl (TypeError ''path.split is not a function''))"

text \<open>
  \<^verbatim>\<open>checkAuth(req, res, next)\<close>, with \<^verbatim>\<open>config.jwtSecret\<close> as \<open>jwtSecret\<close>. A header that
  is absent and the empty string are the two falsy values of \<^verbatim>\<open>req.headers.authorization\<close>.
  An exception leaves with the state in which it was thrown: in the \<^verbatim>\<open>catch\<close> block
  \<^verbatim>\<open>res.status(401)\<close> has run when the template literal is evaluated.
\<close>

definition checkAuth ::
  "(jsval \<Rightarrow> string \<Rightarrow> js_exn + jsval) \<Rightarrow> (string \<Rightarrow> jsval \<Rightarrow> js_exn + jsval) \<Rightarrow>
   (jsval \<Rightarrow> jsval \<Rightarrow> js_exn + jsval) \<Rightarrow> jsval \<Rightarrow> request \<Rightarrow> http \<Rightarrow> js_exn \<times> http + http" where
  "checkAuth proto call jwt_verify jwtSecret req w =
     (case headers req ''authorization'' of
        None \<Rightarrow> Inr (call_next w)
      | Some authorization \<Rightarrow>
          if authorization = [] then Inr (call_next w)
          else
            (case jwt_verify (at_index (map JStr (split_on CHR '' '' authorization)) 1) jwtSecret of
               Inl e \<Rightarrow>
                 (case and_then (ToString call (or_else (exn_name e) (JStr ''Error''))) (\<lambda>name.
                       and_then (ToString call (or_else (exn_message e) (JStr ''Invalid token'')))
                         (\<lambda>message. Inr (name @ '': '' @ message))) of
                    Inl ex \<Rightarrow> Inl (ex, res_status 401 w)
                  | Inr text \<Rightarrow> Inr (res_send (JStr text) (res_status 401 w)))
             | Inr token \<Rightarrow>
                 (case and_then (getProp proto token ''err'') (\<lambda>a.
                       if truthy a then Inr a
                       else and_then (getProp proto token ''sim_error'') (\<lambda>b.
                            if truthy b then Inr b else getProp proto token ''auth_error'')) of
                    Inl ex \<Rightarrow> Inl (ex, w)
                  | Inr error \<Rightarrow>
                      if truthy error then Inr (res_send error (res_status 401 w))
                      else Inr (call_next w))))"

text \<open>
  \<^verbatim>\<open>printf\<close> reads \<^verbatim>\<open>arguments\<close>, the list of all the values of the call, the template
  \<^verbatim>\<open>s\<close> first: \<^verbatim>\<open>printf("%s and %s", "x")\<close> is \<open>printf call [JStr ''%s and %s'', JStr ''x'']\<close>.
  The replacer is \<^verbatim>\<open>a => ++i > l ? "" : args[i]\<close>; the state is \<^verbatim>\<open>i\<close>.
\<close>

definition printf :: "(string \<Rightarrow> jsval \<Rightarrow> js_exn + jsval) \<Rightarrow> jsval list \<Rightarrow> js_exn + string" where
  "printf call args =
     (let s = at_index args 0;
          l = length args
      in and_then (StringOf call (or_else s (JStr ''''))) (\<lambda>template.
         replace_fn call (lit ''%s'')
           (\<lambda>a i. let i' = i + 1 in (if i' > l then JStr '''' else at_index args i', i'))
           (0 :: nat) template))"

text \<open>
  \<^verbatim>\<open>parseToken\<close>. After the first test \<^verbatim>\<open>token\<close> is a string, so the last branch is
  never taken.
\<close>

definition parseToken ::
  "(string \<Rightarrow> string) \<Rightarrow> (string \<Rightarrow> string + jsval) \<Rightarrow> jsval \<Rightarrow> js_exn + jsval" where
  "parseToken base64_decode JSON_parse token =
     (if typeof token \<noteq> ''string'' then Inl (Error ''The token must be a string'')
      else
        (case token of
           JStr s \<Rightarrow>
             (let parts = split_on CHR ''.'' s
              in if length parts \<noteq> 3 then Inl (Error ''Invalid token structure'')
                 else JSON_parse_or_throw JSON_parse (base64_decode (parts ! 1)))
         | _ \<Rightarrow> Inl (TypeError ''token.split is not a function'')))"

text \<open>
  \<^verbatim>\<open>uInt(x, defaultValue = 0)\<close>: the default applies when the second argument is
  \<^verbatim>\<open>undefined\<close>, and \<^verbatim>\<open>uInt("7.9")\<close> is \<open>uInt call (JStr ''7.9'') JUndefined\<close>. When \<^verbatim>\<open>x + ""\<close>
  throws, \<^verbatim>\<open>uInt\<close> throws. The recursion ends because \<^verbatim>\<open>parseInt("0", 10)\<close> is \<open>0\<close>: the
  measure counts which of \<^verbatim>\<open>x\<close> and the default are converted and then rejected.
\<close>

definition rejected :: "jsnum \<Rightarrow> bool" where
  "rejected x = (isNaN x \<or> \<not> isFinite x \<or> less_zero x)"

definition conversion_rejected :: "(string \<Rightarrow> jsval \<Rightarrow> js_exn + jsval) \<Rightarrow> jsval \<Rightarrow> nat" where
  "conversion_rejected call v =
     (case plus_empty call v of
        Inl ex \<Rightarrow> 0
      | Inr s \<Rightarrow> if rejected (parseInt10 s) then 1 else 0)"

function uInt :: "(string \<Rightarrow> jsval \<Rightarrow> js_exn + jsval) \<Rightarrow> jsval \<Rightarrow> jsval \<Rightarrow> js_exn + jsnum" where
  "uInt call x d =
     (let defaultValue = (if d = JUndefined then JNum (Fin 0) else d)
      in case plus_empty call x of
           Inl ex \<Rightarrow> Inl ex
         | Inr s \<Rightarrow>
             (let x' = parseInt10 s
              in if isNaN x' \<or> \<not> isFinite x' \<or> less_zero x'
                 then uInt call defaultValue (JNum (Fin 0))
                 else Inr x'))"
  by pat_completeness auto
termination
proof -
  have zero: "conversion_rejected call (JNum (Fin 0)) = 0" for call
  proof -
    have "parseInt10 (Number_toString (Fin 0)) = Fin 0"
      by code_simp
    then show ?thesis
      by (simp add: conversion_rejected_def rejected_def)
  qed
  show ?thesis
    apply (relation "measure (\<lambda>(call, x, d).
      conversion_rejected call x +
      conversion_rejected call (if d = JUndefined then JNum (Fin 0) else d))")
     apply simp
    apply (simp only: in_measure prod.case rejected_def [symmetric])
    apply (simp only: jsval.simps if_False zero)
    apply (simp add: conversion_rejected_def)
    done
qed

section \<open>Notions of the specification\<close>

text \<open>An object in the sense of \<^verbatim>\<open>typeof v === "object"\<close> that is not \<^verbatim>\<open>null\<close>.\<close>

fun is_object :: "jsval \<Rightarrow> bool" where
  "is_object (JArr xs) = True"
| "is_object (JObj kvs) = True"
| "is_object _ = False"

text \<open>Two strings that differ at most in the case of the letters \<^verbatim>\<open>A-Z\<close>.\<close>

definition ascii_lower :: "char \<Rightarrow> char" where
  "ascii_lower c =
     (let n = (of_char c :: nat) in if 65 \<le> n \<and> n \<le> 90 then char_of (n + 32) else c)"

definition same_ignoring_case :: "string \<Rightarrow> string \<Rightarrow> bool" where
  "same_ignoring_case a b = (map ascii_lower a = map ascii_lower b)"

text \<open>The entity for one character, when each character is escaped once.\<close>

definition escape_char :: "char \<Rightarrow> string" where
  "escape_char c =
     (if c = CHR ''&'' then ''&amp;''
      else if c = CHR ''<'' then ''&lt;''
      else if c = CHR ''>'' then ''&gt;''
      else if c = CHR 0x22 then ''&quot;''
      else [c])"

section \<open>An instance of the libraries\<close>

text \<open>
  The theorems hold for every decoder and parser. The examples need one of each: base64url
  after RFC 4648 without padding, on strings of ASCII characters (their UTF-8 bytes are
  their code units), and the JSON texts of the values of the model, with integers for
  numbers and the escapes of the quote and of the backslash in strings.
\<close>

definition base64url_alphabet :: string where
  "base64url_alphabet = ''ABCDEFGHIJKLMNOPQRSTUVWXYZabcdefghijklmnopqrstuvwxyz0123456789-_''"

fun sextets :: "nat list \<Rightarrow> nat list" where
  "sextets (a # b # c # bytes) =
     [a div 4, (a mod 4) * 16 + b div 16, (b mod 16) * 4 + c div 64, c mod 64] @ sextets bytes"
| "sextets [a, b] = [a div 4, (a mod 4) * 16 + b div 16, (b mod 16) * 4]"
| "sextets [a] = [a div 4, (a mod 4) * 16]"
| "sextets [] = []"

fun octets :: "nat list \<Rightarrow> nat list" where
  "octets (p # q # r # s # groups) =
     [p * 4 + q div 16, (q mod 16) * 16 + r div 4, (r mod 4) * 64 + s] @ octets groups"
| "octets [p, q, r] = [p * 4 + q div 16, (q mod 16) * 16 + r div 4]"
| "octets [p, q] = [p * 4 + q div 16]"
| "octets _ = []"

definition sextet_of :: "char \<Rightarrow> nat option" where
  "sextet_of c = map_of (zip base64url_alphabet [0 ..< 64]) c"

definition base64url_encode_ascii :: "string \<Rightarrow> string" where
  "base64url_encode_ascii s = map (\<lambda>n. base64url_alphabet ! n) (sextets (map of_char s))"

text \<open>Characters outside the alphabet are skipped, as \<^verbatim>\<open>Buffer\<close> skips them.\<close>

definition base64_decode_ascii :: "string \<Rightarrow> string" where
  "base64_decode_ascii s = map char_of (octets (List.map_filter sextet_of s))"

definition base64url_decode_ascii :: "jsval \<Rightarrow> js_exn + string" where
  "base64url_decode_ascii v =
     (case v of
        JStr s \<Rightarrow> Inr (base64_decode_ascii s)
      | _ \<Rightarrow> Inl (TypeError ''Cannot read property length of undefined''))"

fun json_quote_body :: "string \<Rightarrow> string" where
  "json_quote_body [] = []"
| "json_quote_body (c # cs) =
     (if c = CHR 0x22 \<or> c = CHR 0x5C then [CHR 0x5C, c] else [c]) @ json_quote_body cs"

definition json_quote :: "string \<Rightarrow> string" where
  "json_quote s = CHR 0x22 # json_quote_body s @ [CHR 0x22]"

fun join_commas :: "string list \<Rightarrow> string" where
  "join_commas [] = []"
| "join_commas [s] = s"
| "join_commas (s # t # ts) = s @ CHR '','' # join_commas (t # ts)"

text \<open>
  \<^verbatim>\<open>JSON.stringify\<close>: a member whose value is \<^verbatim>\<open>undefined\<close>, a function or a symbol is
  left out of an object and is \<^verbatim>\<open>null\<close> in an array, and so are the numbers that are not
  finite.
\<close>

fun JSON_stringify_model :: "jsval \<Rightarrow> string" where
  "JSON_stringify_model JUndefined = ''null''"
| "JSON_stringify_model JNull = ''null''"
| "JSON_stringify_model (JBool b) = (if b then ''true'' else ''false'')"
| "JSON_stringify_model (JNum n) = (if isFinite n then Number_toString n else ''null'')"
| "JSON_stringify_model (JStr s) = json_quote s"
| "JSON_stringify_model (JArr xs) =
     ''['' @ join_commas (map JSON_stringify_model xs) @ '']''"
| "JSON_stringify_model (JObj kvs) =
     ''{'' @ join_commas (concat (map (\<lambda>(k, v).
        if v = JUndefined \<or> typeof v = ''function'' \<or> typeof v = ''symbol'' then []
        else [json_quote k @ '':'' @ JSON_stringify_model v]) kvs)) @ ''}''"
| "JSON_stringify_model (JFun src) = ''null''"
| "JSON_stringify_model (JSymbol d) = ''null''"

definition json_ws :: "char \<Rightarrow> bool" where
  "json_ws c = (of_char c \<in> {9, 10, 13, 32 :: nat})"

text \<open>The body of a string after its opening quote, and the rest of the text.\<close>

fun parse_string_body :: "string \<Rightarrow> (string \<times> string) option" where
  "parse_string_body [] = None"
| "parse_string_body [c] = (if c = CHR 0x22 then Some ([], []) else None)"
| "parse_string_body (c # e # cs) =
     (if c = CHR 0x22 then Some ([], e # cs)
      else if c = CHR 0x5C then
        (if e = CHR 0x22 \<or> e = CHR 0x5C
         then map_option (\<lambda>(s, rest). (e # s, rest)) (parse_string_body cs)
         else None)
      else map_option (\<lambda>(s, rest). (c # s, rest)) (parse_string_body (e # cs)))"

text \<open>
  A recursive-descent parser. The first argument bounds the number of nested calls; the
  length of the text is enough. \<open>parse_elements\<close> and \<open>parse_members\<close> start after a
  bracket or a comma.
\<close>

fun parse_value :: "nat \<Rightarrow> string \<Rightarrow> (jsval \<times> string) option"
  and parse_elements :: "nat \<Rightarrow> string \<Rightarrow> (jsval list \<times> string) option"
  and parse_members :: "nat \<Rightarrow> string \<Rightarrow> ((string \<times> jsval) list \<times> string) option" where
  "parse_value 0 text = None"
| "parse_value (Suc n) text =
     (let t = dropWhile json_ws text in
      if take 4 t = ''null'' then Some (JNull, drop 4 t)
      else if take 4 t = ''true'' then Some (JBool True, drop 4 t)
      else if take 5 t = ''false'' then Some (JBool False, drop 5 t)
      else if take 1 t = [CHR 0x22] then
        map_option (\<lambda>(s, rest). (JStr s, rest)) (parse_string_body (drop 1 t))
      else if take 1 t = ''['' then
        (if take 1 (dropWhile json_ws (drop 1 t)) = '']''
         then Some (JArr [], drop 1 (dropWhile json_ws (drop 1 t)))
         else map_option (\<lambda>(xs, rest). (JArr xs, rest)) (parse_elements n (drop 1 t)))
      else if take 1 t = ''{'' then
        (if take 1 (dropWhile json_ws (drop 1 t)) = ''}''
         then Some (JObj [], drop 1 (dropWhile json_ws (drop 1 t)))
         else map_option (\<lambda>(kvs, rest). (JObj kvs, rest)) (parse_members n (drop 1 t)))
      else
        (let neg = (take 1 t = ''-'');
             u = (if neg then drop 1 t else t);
             ds = takeWhile is_digit u;
             rest = dropWhile is_digit u
         in if ds = [] \<or> take 1 rest = ''.'' \<or> take 1 rest = ''e'' \<or> take 1 rest = ''E''
            then None
            else Some (JNum (if neg then negate (toDouble (digits_value ds))
                             else toDouble (digits_value ds)), rest)))"
| "parse_elements 0 text = None"
| "parse_elements (Suc n) text =
     (case parse_value n text of
        None \<Rightarrow> None
      | Some (x, rest) \<Rightarrow>
          (let r = dropWhile json_ws rest in
           if take 1 r = '']'' then Some ([x], drop 1 r)
           else if take 1 r = '','' then
             map_option (\<lambda>(xs, rest'). (x # xs, rest')) (parse_elements n (drop 1 r))
           else None))"
| "parse_members 0 text = None"
| "parse_members (Suc n) text =
     (let t = dropWhile json_ws text in
      if take 1 t \<noteq> [CHR 0x22] then None
      else
        (case parse_string_body (drop 1 t) of
           None \<Rightarrow> None
         | Some (k, rest) \<Rightarrow>
             (let r = dropWhile json_ws rest in
              if take 1 r \<noteq> '':'' then None
              else
                (case parse_value n (drop 1 r) of
                   None \<Rightarrow> None
                 | Some (v, rest') \<Rightarrow>
                     (let r' = dropWhile json_ws rest' in
                      if take 1 r' = ''}'' then Some ([(k, v)], drop 1 r')
                      else if take 1 r' = '','' then
                        map_option (\<lambda>(kvs, rest''). ((k, v) # kvs, rest''))
                          (parse_members n (drop 1 r'))
                      else None)))))"

definition JSON_parse_model :: "string \<Rightarrow> string + jsval" where
  "JSON_parse_model text =
     (case parse_value (Suc (length text)) text of
        None \<Rightarrow> Inl ''Unexpected token in JSON''
      | Some (v, rest) \<Rightarrow>
          if dropWhile json_ws rest = [] then Inr v else Inl ''Unexpected token in JSON'')"

declare show_digits.simps [simp del]
declare bit_length.simps [simp del]
declare shortest_from.simps [simp del]
declare replace_from.simps [simp del]
declare uInt.simps [simp del]
declare Number_toString.simps(4) [simp del]

section \<open>printf\<close>

text \<open>
  C1. The claim: when the template has more \<^verbatim>\<open>%s\<close> tokens than there are arguments, the
  tokens without an argument become the empty string, and \<^verbatim>\<open>printf("%s and %s", "x")\<close> is
  \<^verbatim>\<open>"x and "\<close>. The code compares the counter with \<^verbatim>\<open>arguments.length\<close>, which counts the
  template too: the first token without an argument reads \<^verbatim>\<open>args[l]\<close>, which is
  \<^verbatim>\<open>undefined\<close>, and \<^verbatim>\<open>replace\<close> inserts the text \<^verbatim>\<open>undefined\<close>. Only the tokens after
  that one become empty.
\<close>

theorem printf_first_missing_argument_undefined:
  "printf call_undefined [JStr ''%s and %s'', JStr ''x''] = Inr ''x and undefined'' \<and>
   printf call_undefined [JStr ''%s and %s'', JStr ''x''] \<noteq> Inr ''x and '' \<and>
   printf call_undefined [JStr ''%s, %s, %s'', JStr ''x''] = Inr ''x, undefined, ''"
  by code_simp

section \<open>checkAuth\<close>

text \<open>
  C2. A request without an \<^verbatim>\<open>authorization\<close> header passes: \<^verbatim>\<open>next\<close> is called once, and
  neither the status code nor the body of the response is touched, whatever the verifier
  and the secret are.
\<close>

theorem checkAuth_no_authorization:
  assumes "headers req ''authorization'' = None"
  shows "checkAuth proto call jwt_verify jwtSecret req w =
     Inr (w\<lparr>next_calls := Suc (next_calls w)\<rparr>)"
  using assms by (simp add: checkAuth_def call_next_def)

theorem checkAuth_no_authorization_witness:
  "headers \<lparr>headers = [''accept'' \<mapsto> ''*/*'']\<rparr> ''authorization'' = None \<and>
   checkAuth proto_empty call_undefined
     (\<lambda>t s. Inl (Exn (JStr ''JsonWebTokenError'') (JStr ''jwt malformed'')))
     (JStr ''secret'') \<lparr>headers = [''accept'' \<mapsto> ''*/*'']\<rparr>
     \<lparr>statusCode = 200, sent = None, next_calls = 0\<rparr>
   = Inr \<lparr>statusCode = 200, sent = None, next_calls = 1\<rparr>"
  using checkAuth_no_authorization [of "\<lparr>headers = [''accept'' \<mapsto> ''*/*'']\<rparr>"
      proto_empty call_undefined
      "\<lambda>t s. Inl (Exn (JStr ''JsonWebTokenError'') (JStr ''jwt malformed''))"
      "JStr ''secret''" "\<lparr>statusCode = 200, sent = None, next_calls = 0\<rparr>"]
  by simp



text \<open>
  The other two branches on examples: a token that the verifier refuses is answered with
  the name and the message of the error, and a payload without an error passes.
\<close>

lemma checkAuth_examples:
  "checkAuth proto_empty call_undefined
     (\<lambda>t s. Inl (Exn (JStr ''TokenExpiredError'') (JStr ''jwt expired'')))
     (JStr ''secret'') \<lparr>headers = [''authorization'' \<mapsto> ''Bearer abc'']\<rparr>
     \<lparr>statusCode = 200, sent = None, next_calls = 0\<rparr>
   = Inr \<lparr>statusCode = 401, sent = Some (JStr ''TokenExpiredError: jwt expired''), next_calls = 0\<rparr>"
  "checkAuth proto_empty call_undefined
     (\<lambda>t s. Inl (Exn JUndefined (JStr '''')))
     (JStr ''secret'') \<lparr>headers = [''authorization'' \<mapsto> ''Bearer''] \<rparr>
     \<lparr>statusCode = 200, sent = None, next_calls = 0\<rparr>
   = Inr \<lparr>statusCode = 401, sent = Some (JStr ''Error: Invalid token''), next_calls = 0\<rparr>"
  "checkAuth proto_empty call_undefined (\<lambda>t s. Inr (JObj [(''sub'', JStr ''me'')]))
     (JStr ''secret'') \<lparr>headers = [''authorization'' \<mapsto> ''Bearer abc'']\<rparr>
     \<lparr>statusCode = 200, sent = None, next_calls = 0\<rparr>
   = Inr \<lparr>statusCode = 200, sent = None, next_calls = 1\<rparr>"
  by (simp_all add: checkAuth_def or_else_def res_send_def res_status_def call_next_def
        proto_empty_def)

section \<open>decodeArgs\<close>

lemma is_object_iff: "is_object v \<longleftrightarrow> truthy v \<and> typeof v = ''object''"
  by (cases v) simp_all

text \<open>
  C4. \<^verbatim>\<open>decodeArgs\<close> never throws, for any decoder, any parser and any input: it returns the
  empty object when the decoder throws, when the parser throws, and when the parsed value
  is not an object (\<^verbatim>\<open>null\<close> included); otherwise it returns the parsed object.
\<close>

theorem decodeArgs_never_throws:
  "decodeArgs base64url_decode JSON_parse inputString =
     Inr (case base64url_decode inputString of
            Inl ex \<Rightarrow> JObj []
          | Inr text \<Rightarrow>
              (case JSON_parse text of
                 Inl msg \<Rightarrow> JObj []
               | Inr v \<Rightarrow> if is_object v then v else JObj []))"
  by (cases "base64url_decode inputString";
      cases "JSON_parse (projr (base64url_decode inputString))")
     (auto simp: decodeArgs_def JSON_parse_or_throw_def is_object_iff)

theorem decodeArgs_never_throws_witness:
  "decodeArgs base64url_decode_ascii JSON_parse_model (JStr ''NDI'') = Inr (JObj []) \<and>
   decodeArgs base64url_decode_ascii JSON_parse_model JUndefined = Inr (JObj [])"
proof -
  have number: "(case base64url_decode_ascii (JStr ''NDI'') of
            Inl ex \<Rightarrow> JObj []
          | Inr text \<Rightarrow>
              (case JSON_parse_model text of
                 Inl msg \<Rightarrow> JObj []
               | Inr v \<Rightarrow> if is_object v then v else JObj [])) = JObj []"
    by code_simp
  have thrown: "(case base64url_decode_ascii JUndefined of
            Inl ex \<Rightarrow> JObj []
          | Inr text \<Rightarrow>
              (case JSON_parse_model text of
                 Inl msg \<Rightarrow> JObj []
               | Inr v \<Rightarrow> if is_object v then v else JObj [])) = JObj []"
    by code_simp
  show ?thesis
    using decodeArgs_never_throws [of base64url_decode_ascii JSON_parse_model "JStr ''NDI''"]
      decodeArgs_never_throws [of base64url_decode_ascii JSON_parse_model JUndefined]
    by (simp only: number thrown)
qed

text \<open>
  C5. Round trip. For a plain object \<open>obj\<close> that \<^verbatim>\<open>JSON.parse\<close> reads back from its
  serialization, and whose serialization the base64url decoder reads back from its
  encoding, \<^verbatim>\<open>decodeArgs\<close> of the encoded serialization is \<open>obj\<close>: no plain object, the
  empty one included, is replaced by the fallback.
\<close>

theorem decodeArgs_round_trip:
  assumes "base64url_decode (JStr (base64url_encode (JSON_stringify (JObj kvs)))) =
           Inr (JSON_stringify (JObj kvs))"
    and "JSON_parse (JSON_stringify (JObj kvs)) = Inr (JObj kvs)"
  shows "decodeArgs base64url_decode JSON_parse
           (JStr (base64url_encode (JSON_stringify (JObj kvs)))) = Inr (JObj kvs)"
  using assms by (simp add: decodeArgs_def JSON_parse_or_throw_def)

theorem decodeArgs_round_trip_witness:
  "base64url_decode_ascii
     (JStr (base64url_encode_ascii (JSON_stringify_model (JObj [(''a'', JNum (Fin 1))]))))
     = Inr (JSON_stringify_model (JObj [(''a'', JNum (Fin 1))])) \<and>
   JSON_parse_model (JSON_stringify_model (JObj [(''a'', JNum (Fin 1))]))
     = Inr (JObj [(''a'', JNum (Fin 1))]) \<and>
   decodeArgs base64url_decode_ascii JSON_parse_model
     (JStr (base64url_encode_ascii (JSON_stringify_model (JObj [(''a'', JNum (Fin 1))]))))
     = Inr (JObj [(''a'', JNum (Fin 1))])"
proof -
  have decoded: "base64url_decode_ascii
     (JStr (base64url_encode_ascii (JSON_stringify_model (JObj [(''a'', JNum (Fin 1))]))))
     = Inr (JSON_stringify_model (JObj [(''a'', JNum (Fin 1))]))"
    by code_simp
  have parsed: "JSON_parse_model (JSON_stringify_model (JObj [(''a'', JNum (Fin 1))]))
     = Inr (JObj [(''a'', JNum (Fin 1))])"
    by code_simp
  from decoded parsed
    decodeArgs_round_trip [of base64url_decode_ascii base64url_encode_ascii
      JSON_stringify_model "[(''a'', JNum (Fin 1))]" JSON_parse_model, OF decoded parsed]
  show ?thesis
    by (intro conjI)
qed

text \<open>The examples of the specification, with the instance of the libraries.\<close>

lemma decodeArgs_examples:
  "base64url_encode_ascii (JSON_stringify_model (JObj [(''a'', JNum (Fin 1))])) = ''eyJhIjoxfQ''"
  "decodeArgs base64url_decode_ascii JSON_parse_model (JStr ''eyJhIjoxfQ'')
     = Inr (JObj [(''a'', JNum (Fin 1))])"
  "decodeArgs base64url_decode_ascii JSON_parse_model (JStr ''not-base64!!'') = Inr (JObj [])"
  "base64url_encode_ascii ''42'' = ''NDI''"
  "decodeArgs base64url_decode_ascii JSON_parse_model (JStr ''NDI'') = Inr (JObj [])"
  "decodeArgs base64url_decode_ascii JSON_parse_model JUndefined = Inr (JObj [])"
  by code_simp+

section \<open>bool\<close>

lemma rmatch_lit:
  "rmatch ic (lit w) (pre, suf) =
     (if length w \<le> length suf \<and>
         map (canonicalize ic) (take (length w) suf) = map (canonicalize ic) w
      then [(rev (take (length w) suf) @ pre, drop (length w) suf)] else [])"
proof (induction w arbitrary: pre suf)
  case Nil
  show ?case by simp
next
  case (Cons c w)
  show ?case
    by (cases suf) (simp_all add: Cons.IH)
qed

lemma test_from_Bol: "pre \<noteq> [] \<Longrightarrow> \<not> test_from ic (Seq Bol r) pre s"
  by (induction s arbitrary: pre) simp_all

lemma ends_Eol:
  "(concat (map (rmatch ic Eol) sts) \<noteq> []) = (\<exists>st \<in> set sts. snd st = [])"
  by (induction sts) auto

lemma RegExp_test_anchored:
  "RegExp_test ic (Seq Bol (Seq r Eol)) s = (\<exists>st \<in> set (rmatch ic r ([], s)). snd st = [])"
  by (cases s) (simp_all add: RegExp_test_def test_from_Bol ends_Eol del: concat_eq_Nil_conv)

lemma ends_Alt:
  "(\<exists>st \<in> set (rmatch ic (Alt a b) st0). snd st = []) =
     ((\<exists>st \<in> set (rmatch ic a st0). snd st = []) \<or>
      (\<exists>st \<in> set (rmatch ic b st0). snd st = []))"
  by auto

lemma ends_lit:
  "(\<exists>st \<in> set (rmatch ic (lit w) ([], s)). snd st = []) =
     (map (canonicalize ic) s = map (canonicalize ic) w)"
proof -
  have "map (canonicalize ic) s = map (canonicalize ic) w \<Longrightarrow> length s = length w"
    by (metis length_map)
  then show ?thesis
    by (auto simp: rmatch_lit)
qed

lemma canonicalize_code:
  "(of_char (canonicalize True c) :: nat) =
     (let n = of_char c in
      if (97 \<le> n \<and> n \<le> 122) \<or> (224 \<le> n \<and> n \<le> 254 \<and> n \<noteq> 247) then n - 32 else n)"
proof -
  have "(of_char c :: nat) < 256" by simp
  then show ?thesis
    by (auto simp: canonicalize_def Let_def)
qed

lemma ascii_lower_code:
  "(of_char (ascii_lower c) :: nat) =
     (let n = of_char c in if 65 \<le> n \<and> n \<le> 90 then n + 32 else n)"
proof -
  have "(of_char c :: nat) < 256" by simp
  then show ?thesis
    by (auto simp: ascii_lower_def Let_def)
qed

lemma fold_codes_agree:
  fixes n m :: nat
  assumes "m < 128"
  shows "((if (97 \<le> n \<and> n \<le> 122) \<or> (224 \<le> n \<and> n \<le> 254 \<and> n \<noteq> 247) then n - 32 else n) =
          (if (97 \<le> m \<and> m \<le> 122) \<or> (224 \<le> m \<and> m \<le> 254 \<and> m \<noteq> 247) then m - 32 else m))
     \<longleftrightarrow>
         ((if 65 \<le> n \<and> n \<le> 90 then n + 32 else n) = (if 65 \<le> m \<and> m \<le> 90 then m + 32 else m))"
  using assms by (auto split: if_splits)

lemma canonicalize_eq_ascii:
  assumes "(of_char p :: nat) < 128"
  shows "canonicalize True x = canonicalize True p \<longleftrightarrow> ascii_lower x = ascii_lower p"
proof -
  have "canonicalize True x = canonicalize True p \<longleftrightarrow>
      (of_char (canonicalize True x) :: nat) = of_char (canonicalize True p)"
    by simp
  also have "\<dots> \<longleftrightarrow> (of_char (ascii_lower x) :: nat) = of_char (ascii_lower p)"
    unfolding canonicalize_code ascii_lower_code Let_def
    by (rule fold_codes_agree) (rule assms)
  also have "\<dots> \<longleftrightarrow> ascii_lower x = ascii_lower p"
    by simp
  finally show ?thesis .
qed

lemma map_canonicalize_eq_ascii:
  assumes "list_all (\<lambda>p. (of_char p :: nat) < 128) w"
  shows "map (canonicalize True) s = map (canonicalize True) w \<longleftrightarrow> same_ignoring_case s w"
  using assms
proof (induction w arbitrary: s)
  case Nil
  show ?case by (simp add: same_ignoring_case_def)
next
  case (Cons p w)
  then have "map (canonicalize True) t = map (canonicalize True) w \<longleftrightarrow> same_ignoring_case t w"
    for t
    by simp
  moreover have "canonicalize True x = canonicalize True p \<longleftrightarrow> ascii_lower x = ascii_lower p"
    for x
    using Cons.prems by (simp add: canonicalize_eq_ascii)
  ultimately show ?case
    by (cases s) (simp_all add: same_ignoring_case_def)
qed

lemma RE_FALSE_test:
  "RegExp_test True RE_FALSE t \<longleftrightarrow>
     (same_ignoring_case t ''0'' \<or> same_ignoring_case t ''no'' \<or>
      same_ignoring_case t ''false'' \<or> same_ignoring_case t ''off'' \<or>
      same_ignoring_case t ''null'' \<or> same_ignoring_case t ''undefined'' \<or>
      same_ignoring_case t ''NaN'' \<or> t = '''')"
proof -
  have w0: "map (canonicalize True) s = map (canonicalize True) ''0'' \<longleftrightarrow>
      same_ignoring_case s ''0''" for s
    by (rule map_canonicalize_eq_ascii) simp
  have w1: "map (canonicalize True) s = map (canonicalize True) ''no'' \<longleftrightarrow>
      same_ignoring_case s ''no''" for s
    by (rule map_canonicalize_eq_ascii) simp
  have w2: "map (canonicalize True) s = map (canonicalize True) ''false'' \<longleftrightarrow>
      same_ignoring_case s ''false''" for s
    by (rule map_canonicalize_eq_ascii) simp
  have w3: "map (canonicalize True) s = map (canonicalize True) ''off'' \<longleftrightarrow>
      same_ignoring_case s ''off''" for s
    by (rule map_canonicalize_eq_ascii) simp
  have w4: "map (canonicalize True) s = map (canonicalize True) ''null'' \<longleftrightarrow>
      same_ignoring_case s ''null''" for s
    by (rule map_canonicalize_eq_ascii) simp
  have w5: "map (canonicalize True) s = map (canonicalize True) ''undefined'' \<longleftrightarrow>
      same_ignoring_case s ''undefined''" for s
    by (rule map_canonicalize_eq_ascii) simp
  have w6: "map (canonicalize True) s = map (canonicalize True) ''NaN'' \<longleftrightarrow>
      same_ignoring_case s ''NaN''" for s
    by (rule map_canonicalize_eq_ascii) simp
  show ?thesis
    unfolding RE_FALSE_def RegExp_test_anchored alts.simps ends_Alt ends_lit
      w0 w1 w2 w3 w4 w5 w6
    by simp
qed

text \<open>
  C6. \<^verbatim>\<open>bool(x)\<close> is false exactly when \<^verbatim>\<open>String(x)\<close>, trimmed, is one of \<^verbatim>\<open>0\<close>, \<^verbatim>\<open>no\<close>,
  \<^verbatim>\<open>false\<close>, \<^verbatim>\<open>off\<close>, \<^verbatim>\<open>null\<close>, \<^verbatim>\<open>undefined\<close>, \<^verbatim>\<open>NaN\<close> up to the case of the letters, or
  is empty; it is true for every other string. The first part is for every value that
  \<^verbatim>\<open>String\<close> converts, the second for the strings themselves.
\<close>

theorem bool_false_iff:
  "(StringOf call x = Inr s \<longrightarrow>
      bool call x =
        Inr (\<not> (let t = trim s
                in same_ignoring_case t ''0'' \<or> same_ignoring_case t ''no'' \<or>
                   same_ignoring_case t ''false'' \<or> same_ignoring_case t ''off'' \<or>
                   same_ignoring_case t ''null'' \<or> same_ignoring_case t ''undefined'' \<or>
                   same_ignoring_case t ''NaN'' \<or> t = ''''))) \<and>
   (bool call (JStr s) = Inr False \<longleftrightarrow>
      (let t = trim s
       in same_ignoring_case t ''0'' \<or> same_ignoring_case t ''no'' \<or>
          same_ignoring_case t ''false'' \<or> same_ignoring_case t ''off'' \<or>
          same_ignoring_case t ''null'' \<or> same_ignoring_case t ''undefined'' \<or>
          same_ignoring_case t ''NaN'' \<or> t = '''')) \<and>
   (\<exists>b. bool call (JStr s) = Inr b)"
  by (simp add: bool_def RE_FALSE_test Let_def)

theorem bool_false_iff_witness:
  "bool call_undefined (JStr '' No '') = Inr False \<and>
   bool call_undefined (JStr ''nope'') = Inr True \<and>
   bool call_undefined (JArr [JNull]) = Inr False"
proof -
  have no: "(let t = trim '' No ''
      in same_ignoring_case t ''0'' \<or> same_ignoring_case t ''no'' \<or>
         same_ignoring_case t ''false'' \<or> same_ignoring_case t ''off'' \<or>
         same_ignoring_case t ''null'' \<or> same_ignoring_case t ''undefined'' \<or>
         same_ignoring_case t ''NaN'' \<or> t = '''') = True"
    by code_simp
  have nope: "(let t = trim ''nope''
      in same_ignoring_case t ''0'' \<or> same_ignoring_case t ''no'' \<or>
         same_ignoring_case t ''false'' \<or> same_ignoring_case t ''off'' \<or>
         same_ignoring_case t ''null'' \<or> same_ignoring_case t ''undefined'' \<or>
         same_ignoring_case t ''NaN'' \<or> t = '''') = False"
    by code_simp
  have empty: "(let t = trim ''''
      in same_ignoring_case t ''0'' \<or> same_ignoring_case t ''no'' \<or>
         same_ignoring_case t ''false'' \<or> same_ignoring_case t ''off'' \<or>
         same_ignoring_case t ''null'' \<or> same_ignoring_case t ''undefined'' \<or>
         same_ignoring_case t ''NaN'' \<or> t = '''') = True"
    by code_simp
  have converted: "StringOf call_undefined (JArr [JNull]) = Inr ''''"
    by simp
  have "bool call_undefined (JStr '' No '') = Inr False"
    using bool_false_iff [of call_undefined "JStr '' No ''" "'' No ''"] unfolding no by simp
  moreover have "bool call_undefined (JStr ''nope'') = Inr True"
    using bool_false_iff [of call_undefined "JStr ''nope''" "''nope''"] unfolding nope by simp
  moreover have "bool call_undefined (JArr [JNull]) = Inr False"
    using bool_false_iff [of call_undefined "JArr [JNull]" "''''"] converted
    unfolding empty by simp
  ultimately show ?thesis
    by simp
qed

text \<open>
  The examples of the specification, and values whose conversion throws.
\<close>

lemma bool_examples:
  "bool call_undefined (JStr ''0'') = Inr False"
  "bool call_undefined (JStr ''No'') = Inr False"
  "bool call_undefined (JStr ''FALSE'') = Inr False"
  "bool call_undefined (JStr ''Off'') = Inr False"
  "bool call_undefined (JStr '' '') = Inr False"
  "bool call_undefined (JStr ''null'') = Inr False"
  "bool call_undefined (JStr ''undefined'') = Inr False"
  "bool call_undefined (JStr ''NaN'') = Inr False"
  "bool call_undefined (JStr '''') = Inr False"
  "bool call_undefined (JStr ''1'') = Inr True"
  "bool call_undefined (JStr ''yes'') = Inr True"
  "bool call_undefined (JStr ''anything'') = Inr True"
  "bool call_undefined (JSymbol ''s'') = Inr True"
  "bool call_undefined (JObj [(''toString'', JNum (Fin 1))])
     = Inl (TypeError ''Cannot convert object to primitive value'')"
  by code_simp+

section \<open>htmlEncode\<close>

lemma canonicalize_False [simp]: "canonicalize False c = c"
  by (simp add: canonicalize_def)

lemma replace_from_Chr:
  "replace_from (Chr c) (\<lambda>a u. (Inr rep, u)) () pre s =
     Inr (concat (map (\<lambda>x. if x = c then rep else [x]) s))"
proof (induction s arbitrary: pre)
  case Nil
  show ?case by (simp add: replace_from.simps)
next
  case (Cons x xs)
  show ?case
    by (subst replace_from.simps) (simp add: Cons.IH)
qed

lemma replace_str_Chr:
  "replace_str (Chr c) rep s = Inr (concat (map (\<lambda>x. if x = c then rep else [x]) s))"
  by (simp add: replace_str_def replace_from_Chr)

lemma concat_map_concat_map:
  "concat (map g (concat (map f s))) = concat (map (\<lambda>x. concat (map g (f x))) s)"
  by (induction s) simp_all

lemma htmlEncode_escape:
  assumes "StringOf call x = Inr s"
  shows "htmlEncode call x = Inr (concat (map escape_char (trim s)))"
proof -
  have "(\<lambda>c. concat (map (\<lambda>x. if x = CHR 0x22 then ''&quot;'' else [x])
          (concat (map (\<lambda>x. if x = CHR ''>'' then ''&gt;'' else [x])
            (concat (map (\<lambda>x. if x = CHR ''<'' then ''&lt;'' else [x])
              (if c = CHR ''&'' then ''&amp;'' else [c]))))))) = escape_char"
    by (rule ext) (simp add: escape_char_def)
  with assms show ?thesis
    by (simp add: htmlEncode_def RE_AMP_def RE_LT_def RE_GT_def RE_QUOT_def replace_str_Chr
          concat_map_concat_map)
qed

text \<open>
  C7. \<^verbatim>\<open>htmlEncode\<close> trims its input and then escapes each of the four characters exactly
  once: the four substitutions in the order \<^verbatim>\<open>&\<close>, \<^verbatim>\<open><\<close>, \<^verbatim>\<open>>\<close>, \<^verbatim>\<open>"\<close> give what one pass
  over the characters gives, so no \<^verbatim>\<open>&\<close> of an entity is escaped again. This holds for
  every string, and for every value that \<^verbatim>\<open>String\<close> converts. The example of the
  specification is the last part.
\<close>

theorem htmlEncode_escapes_once:
  \<open>htmlEncode call (JStr s) = Inr (concat (map escape_char (trim s))) \<and>
   (StringOf call x = Inr t \<longrightarrow> htmlEncode call x = Inr (concat (map escape_char (trim t)))) \<and>
   htmlEncode call (JStr ''<a href="x">&</a>'') = Inr ''&lt;a href=&quot;x&quot;&gt;&amp;&lt;/a&gt;''\<close>
proof (intro conjI impI)
  show "htmlEncode call (JStr s) = Inr (concat (map escape_char (trim s)))"
    by (rule htmlEncode_escape) simp
  show "htmlEncode call x = Inr (concat (map escape_char (trim t)))"
    if "StringOf call x = Inr t"
    using that by (rule htmlEncode_escape)
  have \<open>concat (map escape_char (trim ''<a href="x">&</a>'')) =
      ''&lt;a href=&quot;x&quot;&gt;&amp;&lt;/a&gt;''\<close>
    by code_simp
  moreover have \<open>htmlEncode call (JStr ''<a href="x">&</a>'') =
      Inr (concat (map escape_char (trim ''<a href="x">&</a>'')))\<close>
    by (rule htmlEncode_escape) simp
  ultimately show \<open>htmlEncode call (JStr ''<a href="x">&</a>'') =
      Inr ''&lt;a href=&quot;x&quot;&gt;&amp;&lt;/a&gt;''\<close>
    by simp
qed

theorem htmlEncode_escapes_once_witness:
  "htmlEncode call_undefined (JStr '' a&lt;b & c '') = Inr ''a&amp;lt;b &amp; c'' \<and>
   htmlEncode call_undefined (JNum (Fin 5)) = Inr ''5''"
proof -
  have once: "concat (map escape_char (trim '' a&lt;b & c '')) = ''a&amp;lt;b &amp; c''"
    by code_simp
  have five: "StringOf call_undefined (JNum (Fin 5)) = Inr ''5''"
    by code_simp
  have five_once: "concat (map escape_char (trim ''5'')) = ''5''"
    by code_simp
  have "htmlEncode call_undefined (JStr '' a&lt;b & c '') = Inr ''a&amp;lt;b &amp; c''"
    using htmlEncode_escapes_once [of call_undefined "'' a&lt;b & c ''"]
    by (simp only: once)
  moreover have "htmlEncode call_undefined (JNum (Fin 5)) = Inr ''5''"
    using htmlEncode_escapes_once [of call_undefined _ "JNum (Fin 5)" "''5''"] five
    by (simp only: five_once)
  ultimately show ?thesis
    by simp
qed

section \<open>uInt\<close>

lemma not_rejected_iff: "\<not> rejected x \<longleftrightarrow> (\<exists>n. 0 \<le> n \<and> x = Fin n)"
  by (cases x) (auto simp: rejected_def)

lemma plus_empty_zero: "plus_empty call (JNum (Fin 0)) = Inr ''0''"
proof -
  have "Number_toString (Fin 0) = ''0''"
    by code_simp
  then show ?thesis
    by simp
qed

lemma parseInt10_zero: "parseInt10 ''0'' = Fin 0"
  by code_simp

lemma uInt_unfold:
  "uInt call x d =
     (case plus_empty call x of
        Inl ex \<Rightarrow> Inl ex
      | Inr s \<Rightarrow>
          if rejected (parseInt10 s)
          then uInt call (if d = JUndefined then JNum (Fin 0) else d) (JNum (Fin 0))
          else Inr (parseInt10 s))"
  by (subst uInt.simps) (simp add: rejected_def Let_def split: sum.splits)

lemma uInt_zero_zero: "uInt call (JNum (Fin 0)) (JNum (Fin 0)) = Inr (Fin 0)"
  by (subst uInt_unfold) (simp only: plus_empty_zero sum.case parseInt10_zero, simp add: rejected_def)

lemma uInt_zero_default:
  assumes "plus_empty call y = Inr sy"
  shows "\<exists>n. 0 \<le> n \<and> uInt call y (JNum (Fin 0)) = Inr (Fin n)"
proof (cases "rejected (parseInt10 sy)")
  case True
  with assms have "uInt call y (JNum (Fin 0)) = uInt call (JNum (Fin 0)) (JNum (Fin 0))"
    by (simp add: uInt_unfold [of call y])
  then show ?thesis
    by (simp add: uInt_zero_zero)
next
  case False
  with assms have "uInt call y (JNum (Fin 0)) = Inr (parseInt10 sy)"
    by (simp add: uInt_unfold [of call y])
  with False show ?thesis
    by (simp add: not_rejected_iff)
qed

lemma uInt_nonneg:
  assumes "plus_empty call x = Inr sx"
    and "rejected (parseInt10 sx) \<longrightarrow>
         (\<exists>sd. plus_empty call (if d = JUndefined then JNum (Fin 0) else d) = Inr sd)"
  shows "\<exists>n. 0 \<le> n \<and> uInt call x d = Inr (Fin n)"
proof (cases "rejected (parseInt10 sx)")
  case True
  with assms obtain sd where
    "plus_empty call (if d = JUndefined then JNum (Fin 0) else d) = Inr sd"
    by blast
  then have "\<exists>n. 0 \<le> n \<and>
      uInt call (if d = JUndefined then JNum (Fin 0) else d) (JNum (Fin 0)) = Inr (Fin n)"
    by (rule uInt_zero_default)
  moreover from True assms have
    "uInt call x d = uInt call (if d = JUndefined then JNum (Fin 0) else d) (JNum (Fin 0))"
    by (simp add: uInt_unfold [of call x])
  ultimately show ?thesis
    by simp
next
  case False
  with assms have "uInt call x d = Inr (parseInt10 sx)"
    by (simp add: uInt_unfold [of call x])
  with False show ?thesis
    by (simp add: not_rejected_iff)
qed

text \<open>
  C8, as stated: \<^verbatim>\<open>uInt\<close> returns a finite integer that is not negative for every pair of
  inputs. It does not: \<^verbatim>\<open>x + ""\<close> throws a \<^verbatim>\<open>TypeError\<close> for an object whose own
  \<^verbatim>\<open>toString\<close> is not callable, such as \<^verbatim>\<open>JSON.parse('{"toString":1}')\<close>, and for a
  \<^verbatim>\<open>Symbol\<close>, and \<^verbatim>\<open>uInt\<close> has no handler; the same holds for the default when it is needed.
\<close>

theorem uInt_throws_counterexample:
  "uInt call_undefined (JObj [(''toString'', JNum (Fin 1))]) JUndefined
     = Inl (TypeError ''Cannot convert object to primitive value'') \<and>
   uInt call_undefined (JSymbol ''id'') (JNum (Fin 3))
     = Inl (TypeError ''Cannot convert a Symbol value to a string'') \<and>
   uInt call_undefined (JStr ''abc'') (JObj [(''toString'', JNum (Fin 1))])
     = Inl (TypeError ''Cannot convert object to primitive value'')"
  by code_simp

text \<open>
  C8, amended. Whenever \<^verbatim>\<open>x + ""\<close> returns a string and, if \<^verbatim>\<open>parseInt\<close> of that string is
  \<^verbatim>\<open>NaN\<close>, infinite or negative, \<^verbatim>\<open>defaultValue + ""\<close> returns a string as well, \<^verbatim>\<open>uInt\<close>
  returns (the function is total: its recursion has the measure given at its
  definition), and the result is a finite integer that is not negative. It is
  \<^verbatim>\<open>parseInt(x, 10)\<close> unless that is rejected, and then it is \<^verbatim>\<open>uInt(defaultValue, 0)\<close>.
  When \<^verbatim>\<open>x + ""\<close> throws, \<^verbatim>\<open>uInt\<close> throws the same exception. The three examples of the
  specification follow.
\<close>

theorem uInt_finite_nonnegative:
  "(plus_empty call x = Inr sx \<and>
    (rejected (parseInt10 sx) \<longrightarrow>
       (\<exists>sd. plus_empty call (if d = JUndefined then JNum (Fin 0) else d) = Inr sd)) \<longrightarrow>
      (\<exists>n. 0 \<le> n \<and> uInt call x d = Inr (Fin n)) \<and>
      uInt call x d =
        (let n = parseInt10 sx
         in if isNaN n \<or> \<not> isFinite n \<or> less_zero n
            then uInt call (if d = JUndefined then JNum (Fin 0) else d) (JNum (Fin 0))
            else Inr n)) \<and>
   (plus_empty call x = Inl ex \<longrightarrow> uInt call x d = Inl ex) \<and>
   uInt call (JStr ''-5'') (JNum (Fin 3)) = Inr (Fin 3) \<and>
   uInt call (JStr ''7.9'') JUndefined = Inr (Fin 7) \<and>
   uInt call (JStr ''abc'') (JStr ''xyz'') = Inr (Fin 0)"
proof (intro conjI impI)
  assume conv: "plus_empty call x = Inr sx \<and>
    (rejected (parseInt10 sx) \<longrightarrow>
       (\<exists>sd. plus_empty call (if d = JUndefined then JNum (Fin 0) else d) = Inr sd))"
  from conv have converted: "plus_empty call x = Inr sx"
    by (rule conjunct1)
  from conv have default: "rejected (parseInt10 sx) \<longrightarrow>
       (\<exists>sd. plus_empty call (if d = JUndefined then JNum (Fin 0) else d) = Inr sd)"
    by (rule conjunct2)
  from converted default show "\<exists>n. 0 \<le> n \<and> uInt call x d = Inr (Fin n)"
    by (rule uInt_nonneg)
  from converted show "uInt call x d =
        (let n = parseInt10 sx
         in if isNaN n \<or> \<not> isFinite n \<or> less_zero n
            then uInt call (if d = JUndefined then JNum (Fin 0) else d) (JNum (Fin 0))
            else Inr n)"
    by (simp add: uInt_unfold [of call x] rejected_def Let_def)
next
  assume "plus_empty call x = Inl ex"
  then show "uInt call x d = Inl ex"
    by (simp add: uInt_unfold [of call x])
next
  have five: "parseInt10 ''-5'' = Fin (- 5)" and three: "parseInt10 ''3'' = Fin 3"
    and seven: "parseInt10 ''7.9'' = Fin 7" and abc: "parseInt10 ''abc'' = NaN"
    and xyz: "parseInt10 ''xyz'' = NaN" and str3: "Number_toString (Fin 3) = ''3''"
    by code_simp+
  show "uInt call (JStr ''-5'') (JNum (Fin 3)) = Inr (Fin 3)"
    by (simp add: uInt_unfold [of call "JStr ''-5''"] uInt_unfold [of call "JNum (Fin 3)"]
          five three str3 rejected_def)
  show "uInt call (JStr ''7.9'') JUndefined = Inr (Fin 7)"
    by (simp add: uInt_unfold [of call "JStr ''7.9''"] seven rejected_def)
  show "uInt call (JStr ''abc'') (JStr ''xyz'') = Inr (Fin 0)"
    by (simp add: uInt_unfold [of call "JStr ''abc''"] uInt_unfold [of call "JStr ''xyz''"]
          abc xyz rejected_def uInt_zero_zero)
qed

theorem uInt_finite_nonnegative_witness:
  "plus_empty call_undefined (JNum NegInf) = Inr ''-Infinity'' \<and>
   rejected (parseInt10 ''-Infinity'') \<and>
   plus_empty call_undefined (JArr [JStr ''12px'']) = Inr ''12px'' \<and>
   uInt call_undefined (JNum NegInf) (JArr [JStr ''12px'']) = Inr (Fin 12)"
proof -
  have x: "plus_empty call_undefined (JNum NegInf) = Inr ''-Infinity''"
    by simp
  have r: "rejected (parseInt10 ''-Infinity'')"
    by code_simp
  have d: "plus_empty call_undefined (JArr [JStr ''12px'']) = Inr ''12px''"
    by simp
  have result: "uInt call_undefined (JNum NegInf) (JArr [JStr ''12px'']) = Inr (Fin 12)"
    by code_simp
  have converted: "plus_empty call_undefined (JNum NegInf) = Inr ''-Infinity'' \<and>
      (rejected (parseInt10 ''-Infinity'') \<longrightarrow>
         (\<exists>sd. plus_empty call_undefined
            (if JArr [JStr ''12px''] = JUndefined then JNum (Fin 0) else JArr [JStr ''12px''])
            = Inr sd))"
    using x d by simp
  from uInt_finite_nonnegative [of call_undefined "JNum NegInf" "''-Infinity''"
      "JArr [JStr ''12px'']"] converted
  have "\<exists>n. 0 \<le> n \<and> uInt call_undefined (JNum NegInf) (JArr [JStr ''12px'']) = Inr (Fin n)"
    by blast
  with x r d result show ?thesis
    by simp
qed

text \<open>
  More examples: a number of 22 digits is converted to the exponent form, of which
  \<^verbatim>\<open>parseInt\<close> reads the first digit.
\<close>

lemma uInt_examples:
  "plus_empty call_undefined (JNum (Fin (10 ^ 21))) = Inr ''1e+21''"
  "uInt call_undefined (JNum (Fin (10 ^ 21))) JUndefined = Inr (Fin 1)"
  "uInt call_undefined (JNum (Fin 42)) JUndefined = Inr (Fin 42)"
  "uInt call_undefined (JStr ''  +42abc'') JUndefined = Inr (Fin 42)"
  "uInt call_undefined (JStr ''9007199254740993'') JUndefined = Inr (Fin 9007199254740992)"
  "uInt call_undefined (JNum PosInf) (JStr '' 12'') = Inr (Fin 12)"
  "uInt call_undefined (JObj []) (JObj []) = Inr (Fin 0)"
  by code_simp+

section \<open>parseToken\<close>

text \<open>
  C9. \<^verbatim>\<open>parseToken\<close> throws one of its own two errors exactly when the token is not a
  string or does not split at the dots into three segments. On a string of three
  segments it is \<^verbatim>\<open>JSON.parse\<close> of the decoded middle segment, a \<^verbatim>\<open>SyntaxError\<close> of the
  parser included.
\<close>

theorem parseToken_validation:
  "((\<exists>msg. parseToken base64_decode JSON_parse token = Inl (Error msg)) \<longleftrightarrow>
      (typeof token \<noteq> ''string'' \<or>
       (\<exists>s. token = JStr s \<and> length (split_on CHR ''.'' s) \<noteq> 3))) \<and>
   (token = JStr s \<and> split_on CHR ''.'' s = [h, p, sg] \<longrightarrow>
      parseToken base64_decode JSON_parse token =
        JSON_parse_or_throw JSON_parse (base64_decode p))"
  by (auto simp: parseToken_def Error_def SyntaxError_def TypeError_def
        JSON_parse_or_throw_def Let_def split: jsval.splits sum.splits)

theorem parseToken_validation_witness:
  "JStr ''eyJhbGciOiJIUzI1NiJ9.eyJhIjoxfQ.c2ln'' = JStr ''eyJhbGciOiJIUzI1NiJ9.eyJhIjoxfQ.c2ln'' \<and>
   split_on CHR ''.'' ''eyJhbGciOiJIUzI1NiJ9.eyJhIjoxfQ.c2ln''
     = [''eyJhbGciOiJIUzI1NiJ9'', ''eyJhIjoxfQ'', ''c2ln''] \<and>
   parseToken base64_decode_ascii JSON_parse_model (JStr ''eyJhbGciOiJIUzI1NiJ9.eyJhIjoxfQ.c2ln'')
     = Inr (JObj [(''a'', JNum (Fin 1))])"
proof -
  have segments: "JStr ''eyJhbGciOiJIUzI1NiJ9.eyJhIjoxfQ.c2ln'' = JStr ''eyJhbGciOiJIUzI1NiJ9.eyJhIjoxfQ.c2ln'' \<and>
      split_on CHR ''.'' ''eyJhbGciOiJIUzI1NiJ9.eyJhIjoxfQ.c2ln''
        = [''eyJhbGciOiJIUzI1NiJ9'', ''eyJhIjoxfQ'', ''c2ln'']"
    by code_simp
  have payload: "JSON_parse_or_throw JSON_parse_model (base64_decode_ascii ''eyJhIjoxfQ'')
      = Inr (JObj [(''a'', JNum (Fin 1))])"
    by code_simp
  from parseToken_validation [of base64_decode_ascii JSON_parse_model
      "JStr ''eyJhbGciOiJIUzI1NiJ9.eyJhIjoxfQ.c2ln''" "''eyJhbGciOiJIUzI1NiJ9.eyJhIjoxfQ.c2ln''"
      "''eyJhbGciOiJIUzI1NiJ9''" "''eyJhIjoxfQ''" "''c2ln''"] segments
  have "parseToken base64_decode_ascii JSON_parse_model (JStr ''eyJhbGciOiJIUzI1NiJ9.eyJhIjoxfQ.c2ln'')
      = JSON_parse_or_throw JSON_parse_model (base64_decode_ascii ''eyJhIjoxfQ'')"
    by blast
  with segments payload show ?thesis
    by simp
qed

section \<open>getPath\<close>













text \<open>Paths through own and inherited properties that do not throw.\<close>

lemma getPath_examples:
  "getPath proto_builtin (JObj [(''a'', JObj [(''b'', JArr [JStr ''xy''])])]) (JStr ''a.b.0.1'')
     = Inr (JStr ''y'')"
  "getPath proto_builtin (JObj [(''a'', JNull)]) (JStr ''a.b.c'') = Inr JUndefined"
  "getPath proto_builtin (JObj []) (JStr ''constructor'')
     = Inr (JFun ''function Object() { [native code] }'')"
  "getPath proto_builtin (JArr [JStr ''x'']) (JStr ''length'') = Inr (JNum (Fin 1))"
  by code_simp+

end
